theory Spec2Isabelle
  imports Main "HOL-Library.Sublist" "HOL-Library.Word"
begin

section \<open>Python strings\<close>

text \<open>
  A Python \<open>str\<close> is a sequence of Unicode code points, and \<open>len\<close>, slicing and
  \<open>rfind\<close> count code points. The model keeps a string as the list of its code points;
  \<open>U\<close> turns a literal into that form.
\<close>

type_synonym pystr = "nat list"

abbreviation U :: "string \<Rightarrow> pystr" where
  "U s \<equiv> map of_char s"

text \<open>
  \<open>xs[i:j]\<close>: a negative index counts from the end, every index is clamped to
  \<open>0 .. len\<close>, and a slice whose bounds cross is empty.
\<close>

definition clamp_index :: "nat \<Rightarrow> int \<Rightarrow> nat" where
  "clamp_index n i = (if i < 0 then nat (int n + i) else min n (nat i))"

definition py_slice :: "'a list \<Rightarrow> int \<Rightarrow> int \<Rightarrow> 'a list" where
  "py_slice xs i j =
     (let a = clamp_index (length xs) i; b = clamp_index (length xs) j
      in take (b - a) (drop a xs))"

text \<open>
  \<open>s.rfind(sub)\<close>: the highest index at which \<open>sub\<close> starts in \<open>s\<close>, or \<open>-1\<close>.
\<close>

fun rfind_from :: "'a list \<Rightarrow> 'a list \<Rightarrow> nat \<Rightarrow> int" where
  "rfind_from s sub 0 = (if prefix sub s then 0 else - 1)"
| "rfind_from s sub (Suc i) =
     (if prefix sub (drop (Suc i) s) then int (Suc i) else rfind_from s sub i)"

definition py_rfind :: "'a list \<Rightarrow> 'a list \<Rightarrow> int" where
  "py_rfind s sub =
     (if length s < length sub then - 1 else rfind_from s sub (length s - length sub))"

text \<open>
  \<open>s.strip()\<close> removes leading and trailing whitespace, that is the code points for
  which \<open>str.isspace\<close> holds.
\<close>

definition py_isspace :: "nat \<Rightarrow> bool" where
  "py_isspace c \<longleftrightarrow>
     (9 \<le> c \<and> c \<le> 13) \<or> (28 \<le> c \<and> c \<le> 32) \<or> c = 133 \<or> c = 160 \<or> c = 5760 \<or>
     (8192 \<le> c \<and> c \<le> 8202) \<or> c = 8232 \<or> c = 8233 \<or> c = 8239 \<or> c = 8287 \<or> c = 12288"

definition py_strip :: "pystr \<Rightarrow> pystr" where
  "py_strip s = rev (dropWhile py_isspace (rev (dropWhile py_isspace s)))"

section \<open>TextChunker\<close>

record text_chunker =
  chunk_size :: int
  chunk_overlap :: int


definition sentence_marks :: "pystr list" where
  "sentence_marks = [U ''. '', U [CHR ''.'', CHR 0x0A], U ''! '', U ''? '']"

text \<open>
  The \<open>for punct in [...]\<close> loop of \<open>chunk\<close>: the marks are tried in the order of the
  list, and the first one whose last occurrence in \<open>text[start:end]\<close> lies beyond
  \<open>chunk_size // 2\<close> moves \<open>end\<close> and leaves the loop.
\<close>

fun break_at :: "text_chunker \<Rightarrow> pystr \<Rightarrow> int \<Rightarrow> int \<Rightarrow> pystr list \<Rightarrow> int" where
  "break_at c text start end' [] = end'"
| "break_at c text start end' (punct # ps) =
     (let last_punct = py_rfind (py_slice text start end') punct
      in if last_punct > chunk_size c div 2 then start + last_punct + int (length punct)
         else break_at c text start end' ps)"

definition window_end :: "text_chunker \<Rightarrow> pystr \<Rightarrow> int \<Rightarrow> int" where
  "window_end c text start =
     (let end' = start + chunk_size c
      in if end' < int (length text) then break_at c text start end' sentence_marks
         else end')"

text \<open>
  The \<open>while start < text_length\<close> loop. Nothing in the source bounds the number of
  iterations, so the loop is a partial function: \<open>None\<close> stands for a run that never
  leaves the loop.
\<close>

partial_function (option)
  chunk_loop :: "text_chunker \<Rightarrow> pystr \<Rightarrow> int \<Rightarrow> pystr list \<Rightarrow> pystr list option"
where
  "chunk_loop c text start chunks =
     (if start < int (length text) then
        (let end' = window_end c text start;
             chunk = py_strip (py_slice text start end');
             chunks' = (if chunk \<noteq> [] then chunks @ [chunk] else chunks)
         in chunk_loop c text (end' - chunk_overlap c) chunks')
      else Some chunks)"

declare chunk_loop.simps [code]

definition chunk :: "text_chunker \<Rightarrow> pystr \<Rightarrow> pystr list option" where
  "chunk c text = (if text = [] then Some [] else chunk_loop c text 0 [])"

section \<open>Exceptions\<close>

text \<open>
  The exceptions that the modelled code raises or catches, each with the text that
  \<open>str(e)\<close> gives. \<open>LibraryError\<close> stands for any \<open>Exception\<close> raised inside a library
  call (pypdf, python-docx, Haystack, Chroma, google-genai). \<open>except Exception\<close> catches all
  of them; \<open>KeyboardInterrupt\<close> and \<open>SystemExit\<close>, which are no \<open>Exception\<close>, are outside
  the model.
\<close>

datatype error =
    ValueError pystr
  | UnicodeDecodeError pystr
  | OSError pystr
  | LibraryError pystr

fun str_of_error :: "error \<Rightarrow> pystr" where
  "str_of_error (ValueError m) = m"
| "str_of_error (UnicodeDecodeError m) = m"
| "str_of_error (OSError m) = m"
| "str_of_error (LibraryError m) = m"

section \<open>More string methods\<close>

text \<open>
  \<open>str.lower\<close> and \<open>str.capitalize\<close>, for the code points up to \<open>U+00FF\<close> (ASCII and
  Latin-1); code points above are left as they are (the full Unicode case tables are not
  modelled).
\<close>

definition py_lower_char :: "nat \<Rightarrow> nat" where
  "py_lower_char c =
     (if (65 \<le> c \<and> c \<le> 90) \<or> (192 \<le> c \<and> c \<le> 222 \<and> c \<noteq> 215) then c + 32 else c)"

definition py_lower :: "pystr \<Rightarrow> pystr" where
  "py_lower s = map py_lower_char s"

fun py_join :: "pystr \<Rightarrow> pystr list \<Rightarrow> pystr" where
  "py_join sep [] = []"
| "py_join sep [x] = x"
| "py_join sep (x # y # ys) = x @ sep @ py_join sep (y # ys)"

section \<open>Files and codecs\<close>

text \<open>
  A file holds bytes. \<open>decode\<close> is the text layer of \<open>open(path, 'r', encoding=...)\<close>:
  the strict UTF-8 codec (no overlong forms, no surrogates, nothing above U+10FFFF) or
  Latin-1, which maps every byte to the code point of the same number.
  \<open>universal_newlines\<close> is the newline translation of text mode.
\<close>

type_synonym byte = "8 word"
type_synonym path = pystr

definition is_cont :: "nat \<Rightarrow> bool" where
  "is_cont b \<longleftrightarrow> 128 \<le> b \<and> b < 192"

fun utf8_points :: "nat list \<Rightarrow> pystr option" where
  "utf8_points [] = Some []"
| "utf8_points (b0 # bs) =
     (if b0 < 128 then map_option ((#) b0) (utf8_points bs)
      else if 194 \<le> b0 \<and> b0 < 224 then
        (case bs of
           b1 # r \<Rightarrow>
             if is_cont b1
             then map_option ((#) ((b0 - 192) * 64 + (b1 - 128))) (utf8_points r)
             else None
         | _ \<Rightarrow> None)
      else if 224 \<le> b0 \<and> b0 < 240 then
        (case bs of
           b1 # b2 # r \<Rightarrow>
             (let cp = (b0 - 224) * 4096 + (b1 - 128) * 64 + (b2 - 128)
              in if is_cont b1 \<and> is_cont b2 \<and> 2048 \<le> cp \<and> \<not> (55296 \<le> cp \<and> cp < 57344)
                 then map_option ((#) cp) (utf8_points r) else None)
         | _ \<Rightarrow> None)
      else if 240 \<le> b0 \<and> b0 < 245 then
        (case bs of
           b1 # b2 # b3 # r \<Rightarrow>
             (let cp = (b0 - 240) * 262144 + (b1 - 128) * 4096 + (b2 - 128) * 64 + (b3 - 128)
              in if is_cont b1 \<and> is_cont b2 \<and> is_cont b3 \<and> 65536 \<le> cp \<and> cp < 1114112
                 then map_option ((#) cp) (utf8_points r) else None)
         | _ \<Rightarrow> None)
      else None)"

datatype encoding = UTF8 | Latin1

definition decode :: "encoding \<Rightarrow> byte list \<Rightarrow> error + pystr" where
  "decode enc bs =
     (case enc of
        UTF8 \<Rightarrow> (case utf8_points (map unat bs) of
                   None \<Rightarrow> Inl (UnicodeDecodeError (U ''utf-8 codec cannot decode bytes''))
                 | Some s \<Rightarrow> Inr s)
      | Latin1 \<Rightarrow> Inr (map unat bs))"

fun universal_newlines :: "pystr \<Rightarrow> pystr" where
  "universal_newlines [] = []"
| "universal_newlines [c] = [if c = 13 then 10 else c]"
| "universal_newlines (c # d # r) =
     (if c = 13 \<and> d = 10 then 10 # universal_newlines r
      else (if c = 13 then 10 else c) # universal_newlines (d # r))"


section \<open>DocumentParser\<close>

text \<open>
  What the parsers read from outside is gathered in \<open>world\<close>: the bytes of a file (or the
  \<open>OSError\<close> of opening it), the pages that \<open>PdfReader\<close> finds with the result of
  \<open>extract_text\<close> for each, and the paragraph texts that \<open>DocxDocument\<close> finds. Every
  parser returns its result together with the files it opened, in order.
\<close>

datatype io_event = OpenFile path

record world =
  read_file :: "path \<Rightarrow> error + byte list"
  pdf_pages :: "path \<Rightarrow> error + (error + pystr) list"
  docx_paragraphs :: "path \<Rightarrow> error + pystr list"

type_synonym parsed = "(error + pystr) \<times> io_event list"

fun collect_pages :: "(error + pystr) list \<Rightarrow> pystr list \<Rightarrow> error + pystr list" where
  "collect_pages [] text_parts = Inr text_parts"
| "collect_pages (Inl e # pages) text_parts = Inl e"
| "collect_pages (Inr t # pages) text_parts =
     collect_pages pages (if t \<noteq> [] then text_parts @ [t] else text_parts)"

definition parse_pdf :: "world \<Rightarrow> path \<Rightarrow> parsed" where
  "parse_pdf w file_path =
     (case pdf_pages w file_path of
        Inl e \<Rightarrow> (Inl e, [OpenFile file_path])
      | Inr pages \<Rightarrow>
          (case collect_pages pages [] of
             Inl e \<Rightarrow> (Inl e, [OpenFile file_path])
           | Inr text_parts \<Rightarrow>
               (Inr (py_join [10, 10] text_parts), [OpenFile file_path])))"

definition parse_docx :: "world \<Rightarrow> path \<Rightarrow> parsed" where
  "parse_docx w file_path =
     (case docx_paragraphs w file_path of
        Inl e \<Rightarrow> (Inl e, [OpenFile file_path])
      | Inr paras \<Rightarrow>
          (Inr (py_join [10, 10] (filter (\<lambda>t. py_strip t \<noteq> []) paras)),
           [OpenFile file_path]))"

definition read_text :: "world \<Rightarrow> path \<Rightarrow> encoding \<Rightarrow> error + pystr" where
  "read_text w file_path enc =
     (case read_file w file_path of
        Inl e \<Rightarrow> Inl e
      | Inr bs \<Rightarrow> (case decode enc bs of
                    Inl e \<Rightarrow> Inl e
                  | Inr s \<Rightarrow> Inr (universal_newlines s)))"

definition parse_txt :: "world \<Rightarrow> path \<Rightarrow> parsed" where
  "parse_txt w file_path =
     (case read_text w file_path UTF8 of
        Inl (UnicodeDecodeError m) \<Rightarrow>
          (read_text w file_path Latin1, [OpenFile file_path, OpenFile file_path])
      | r \<Rightarrow> (r, [OpenFile file_path]))"

definition parsers :: "pystr \<rightharpoonup> (world \<Rightarrow> path \<Rightarrow> parsed)" where
  "parsers = [U ''pdf'' \<mapsto> parse_pdf, U ''docx'' \<mapsto> parse_docx, U ''txt'' \<mapsto> parse_txt]"

definition parse :: "world \<Rightarrow> path \<Rightarrow> pystr \<Rightarrow> parsed" where
  "parse w file_path extension =
     (case parsers (py_lower extension) of
        None \<Rightarrow> (Inl (ValueError (U ''Unsupported file type: '' @ extension)), [])
      | Some parser \<Rightarrow> parser w file_path)"


section \<open>RagService\<close>

text \<open>
  A Haystack document carries an id, its content, the metadata and, once embedded, a
  vector of some type \<open>'v\<close> that the code never inspects. The store is the list of the
  documents written to it. \<open>rag_world\<close> gathers the library calls:
  the embedders (construction, \<open>warm_up\<close> and \<open>run\<close> taken together), the writer, the store's
  \<open>filter_documents\<close> and \<open>delete_documents\<close>, the retriever, the configured API key and
  the model call (client construction and \<open>generate_content\<close> taken together).
\<close>

record meta =
  user_id :: int
  document_id :: int
  document_name :: pystr
  chunk_index :: nat

record 'v document =
  doc_id :: pystr
  content :: pystr
  meta :: meta
  embedding :: "'v option"

type_synonym 'v store = "'v document list"



datatype cond = Equals pystr int | IsIn pystr "int list"

datatype filters = Fields "(pystr \<times> int) list" | Conj "cond list"

datatype response = Response (resp_text: "pystr option")

record 'v rag_world =
  files :: world
  new_doc_id :: "pystr \<Rightarrow> meta \<Rightarrow> pystr"
  embed_documents :: "'v document list \<Rightarrow> error + 'v document list"
  write_documents :: "'v store \<Rightarrow> 'v document list \<Rightarrow> (error + unit) \<times> 'v store"
  filter_documents :: "'v store \<Rightarrow> filters \<Rightarrow> error + 'v document list"
  delete_documents :: "'v store \<Rightarrow> pystr list \<Rightarrow> (error + unit) \<times> 'v store"
  embed_text :: "pystr \<Rightarrow> error + 'v"
  retrieve :: "'v store \<Rightarrow> 'v \<Rightarrow> filters \<Rightarrow> nat \<Rightarrow> error + 'v document list"
  google_api_key :: "pystr option"
  generate_content :: "pystr \<Rightarrow> pystr \<Rightarrow> pystr \<Rightarrow> error + response option"

text \<open>
  Modelled from the spec: the vector store engine (Chroma behind Haystack) is a library
  outside the repository. Section 4.4 of the specification gives its contract: a filter is a
  conjunction of exact-match and set-membership predicates over metadata fields,
  \<open>filter_documents\<close> returns the stored entries that match, and deletion by ids removes
  the entries with these ids and no other.

  The library takes a filter in the form that \<open>answer_question\<close> builds, a dict with the keys
  \<open>operator\<close> and \<open>conditions\<close> (\<open>Conj\<close>). A non-empty dict that maps field names to values
  (\<open>Fields\<close>), the form that \<open>delete_document_embeddings\<close> builds, has no \<open>operator\<close> key and
  is refused with a filter error; an empty dict stands for no filter.
\<close>

definition meta_field :: "meta \<Rightarrow> pystr \<Rightarrow> int option" where
  "meta_field m f =
     (if f = U ''meta.user_id'' then Some (user_id m)
      else if f = U ''meta.document_id'' then Some (document_id m)
      else None)"

fun cond_holds :: "meta \<Rightarrow> cond \<Rightarrow> bool" where
  "cond_holds m (Equals f v) = (meta_field m f = Some v)"
| "cond_holds m (IsIn f vs) = (case meta_field m f of None \<Rightarrow> False | Some v \<Rightarrow> v \<in> set vs)"

definition operator_key_missing :: error where
  "operator_key_missing = LibraryError ([39] @ U ''operator'' @ [39] @ U '' key missing'')"

fun store_filter :: "'v store \<Rightarrow> filters \<Rightarrow> error + 'v document list" where
  "store_filter s (Fields fvs) = (if fvs = [] then Inr s else Inl operator_key_missing)"
| "store_filter s (Conj cs) = Inr (filter (\<lambda>d. list_all (cond_holds (meta d)) cs) s)"

definition store_delete :: "'v store \<Rightarrow> pystr list \<Rightarrow> 'v store" where
  "store_delete s ids = filter (\<lambda>d. doc_id d \<notin> set ids) s"





text \<open>
  \<open>delete_document_embeddings\<close> returns nothing; the model returns the store after the
  call. Both \<open>except\<close> paths only log.
\<close>

definition delete_document_embeddings :: "'v rag_world \<Rightarrow> int \<Rightarrow> int \<Rightarrow> 'v store \<Rightarrow> 'v store" where
  "delete_document_embeddings w did uid store =
     (case filter_documents w store
             (Fields [(U ''meta.document_id'', did), (U ''meta.user_id'', uid)]) of
        Inl e \<Rightarrow> store
      | Inr docs \<Rightarrow>
          if docs \<noteq> [] then snd (delete_documents w store (map doc_id docs)) else store)"

text \<open>
  \<open>answer_question\<close>: a chat message is a dict from strings to strings. The result is the
  returned value and the prompts handed to the language model, in order.
\<close>

definition py_upper_char :: "nat \<Rightarrow> nat" where
  "py_upper_char c =
     (if (97 \<le> c \<and> c \<le> 122) \<or> (224 \<le> c \<and> c \<le> 254 \<and> c \<noteq> 247) then c - 32 else c)"

definition py_title_char :: "nat \<Rightarrow> pystr" where
  "py_title_char c =
     (if c = 181 then [924] else if c = 223 then [83, 115] else if c = 255 then [376]
      else [py_upper_char c])"

definition py_capitalize :: "pystr \<Rightarrow> pystr" where
  "py_capitalize s = (case s of [] \<Rightarrow> [] | c # r \<Rightarrow> py_title_char c @ py_lower r)"

definition render_history :: "(pystr \<rightharpoonup> pystr) list \<Rightarrow> pystr" where
  "render_history chat_history =
     py_join [10]
       (map (\<lambda>msg. py_capitalize (case msg (U ''role'') of None \<Rightarrow> U ''user'' | Some r \<Rightarrow> r)
                    @ U '': '' @ (case msg (U ''content'') of None \<Rightarrow> [] | Some c \<Rightarrow> c))
            (py_slice chat_history (- 10) (int (length chat_history))))"

definition build_prompt :: "pystr \<Rightarrow> pystr \<Rightarrow> pystr \<Rightarrow> pystr" where
  "build_prompt history context question =
     U ''You are a helpful assistant answering questions based on the provided documents.''
     @ [10, 10] @ U ''Recent conversation:'' @ [10] @ history
     @ [10, 10] @ U ''Relevant document excerpts:'' @ [10] @ context
     @ [10, 10] @ U ''User question: '' @ question
     @ [10, 10] @ U ''Please provide a clear, accurate answer based on the document excerpts above. If the documents don''
     @ [39] @ U ''t contain enough information to answer the question, say so clearly.''
     @ [10, 10] @ U ''Answer:''"

definition no_relevant_msg :: pystr where
  "no_relevant_msg = U ''I couldn'' @ [39] @ U ''t find any relevant information in the selected documents.''"

definition config_error_msg :: pystr where
  "config_error_msg =
     U ''Error: Google API key is not configured. Please set GOOGLE_API_KEY in your .env file.''"

definition no_response_msg :: pystr where
  "no_response_msg = U ''I couldn'' @ [39] @ U ''t generate a response. Please try again.''"

definition generic_error_msg :: "error \<Rightarrow> pystr" where
  "generic_error_msg e = U ''An error occurred while processing your question: '' @ str_of_error e"

definition placeholder_key :: pystr where
  "placeholder_key = U ''your-google-api-key-here''"

type_synonym answered = "(error + pystr) \<times> pystr list"

definition answer_body ::
    "'v rag_world \<Rightarrow> 'v store \<Rightarrow> pystr \<Rightarrow> int \<Rightarrow> int list \<Rightarrow> (pystr \<rightharpoonup> pystr) list option
     \<Rightarrow> answered" where
  "answer_body w store question uid selected_document_ids chat_history =
     (case embed_text w question of
        Inl e \<Rightarrow> (Inl e, [])
      | Inr query_embedding \<Rightarrow>
          (case retrieve w store query_embedding
                  (Conj [Equals (U ''meta.user_id'') uid,
                         IsIn (U ''meta.document_id'') selected_document_ids]) 5 of
             Inl e \<Rightarrow> (Inl e, [])
           | Inr docs \<Rightarrow>
               if docs = [] then (Inr no_relevant_msg, [])
               else
                 (let context = py_join (U [CHR 0x0A, CHR 0x0A, CHR ''-'', CHR ''-'', CHR ''-'',
                                              CHR 0x0A, CHR 0x0A]) (map content docs);
                      history_text =
                        (case chat_history of
                           None \<Rightarrow> []
                         | Some h \<Rightarrow> if h = [] then [] else render_history h);
                      prompt = build_prompt
                        (if history_text \<noteq> [] then history_text else U ''No previous history.'')
                        context question
                  in case google_api_key w of
                       None \<Rightarrow> (Inr config_error_msg, [])
                     | Some api_key \<Rightarrow>
                         if api_key = [] \<or> api_key = placeholder_key
                         then (Inr config_error_msg, [])
                         else
                           (case generate_content w api_key (U ''gemini-2.5-flash'') prompt of
                              Inl e \<Rightarrow> (Inl e, [prompt])
                            | Inr None \<Rightarrow> (Inr no_response_msg, [prompt])
                            | Inr (Some resp) \<Rightarrow>
                                (case resp_text resp of
                                   None \<Rightarrow> (Inr no_response_msg, [prompt])
                                 | Some t \<Rightarrow>
                                     if t \<noteq> [] then (Inr t, [prompt])
                                     else (Inr no_response_msg, [prompt]))))))"

definition answer_question ::
    "'v rag_world \<Rightarrow> 'v store \<Rightarrow> pystr \<Rightarrow> int \<Rightarrow> int list \<Rightarrow> (pystr \<rightharpoonup> pystr) list option
     \<Rightarrow> answered" where
  "answer_question w store question uid selected_document_ids chat_history =
     (case answer_body w store question uid selected_document_ids chat_history of
        (Inl e, calls) \<Rightarrow> (Inr (generic_error_msg e), calls)
      | (Inr answer, calls) \<Rightarrow> (Inr answer, calls))"

section \<open>A concrete world\<close>

text \<open>
  Concrete files, library behaviour and store contents, on which the theorems below are
  instantiated. The store of \<open>example_world\<close> follows the contract of Section 4.4.
\<close>

definition example_files :: world where
  "example_files =
     \<lparr>read_file = (\<lambda>p. Inr [0x48, 0xFF]),
      pdf_pages = (\<lambda>p. Inr [Inr (U ''page one''), Inr [], Inr (U ''page three'')]),
      docx_paragraphs = (\<lambda>p. Inr [U ''first'', U ''  '', U ''second''])\<rparr>"

definition example_world :: "nat rag_world" where
  "example_world =
     \<lparr>files = example_files,
      new_doc_id = (\<lambda>c m. c),
      embed_documents = (\<lambda>ds. Inr (map (\<lambda>d. d\<lparr>embedding := Some 0\<rparr>) ds)),
      write_documents = (\<lambda>s ds. (Inr (), s @ ds)),
      filter_documents = store_filter,
      delete_documents = (\<lambda>s ids. (Inr (), store_delete s ids)),
      embed_text = (\<lambda>q. Inr 0),
      retrieve = (\<lambda>s q f k. case store_filter s f of
                                Inl e \<Rightarrow> Inl e
                              | Inr docs \<Rightarrow> Inr (take k docs)),
      google_api_key = None,
      generate_content = (\<lambda>k m p. Inr (Some (Response (Some (U ''an answer'')))))\<rparr>"

definition example_doc :: "pystr \<Rightarrow> int \<Rightarrow> int \<Rightarrow> nat document" where
  "example_doc i uid did =
     \<lparr>doc_id = i, content = U ''some text'',
      meta = \<lparr>user_id = uid, document_id = did, document_name = U ''notes.txt'', chunk_index = 0\<rparr>,
      embedding = Some 0\<rparr>"

definition example_store :: "nat store" where
  "example_store = [example_doc (U ''a'') 1 5, example_doc (U ''b'') 1 6, example_doc (U ''c'') 2 5]"

definition failing_retrieval_world :: "nat rag_world" where
  "failing_retrieval_world =
     example_world\<lparr>retrieve := (\<lambda>s q f k. Inl (LibraryError (U ''store unavailable'')))\<rparr>"






text \<open>
  The cut as the specification words it, for comparison with \<open>window_end\<close>: take the
  last occurrence of any of the marks in the window, and cut right after it when it lies
  at or after the midpoint \<open>chunk_size // 2\<close> of the window. \<open>last_mark\<close> returns the
  position of that occurrence and the length of its mark (\<open>-1\<close> when there is none).
\<close>

fun last_mark :: "pystr \<Rightarrow> pystr list \<Rightarrow> int \<times> int \<Rightarrow> int \<times> int" where
  "last_mark w [] best = best"
| "last_mark w (m # ms) best =
     last_mark w ms (if fst best < py_rfind w m then (py_rfind w m, int (length m)) else best)"

definition spec_window_end :: "text_chunker \<Rightarrow> pystr \<Rightarrow> int \<Rightarrow> int" where
  "spec_window_end c tx start =
     (let end' = start + chunk_size c
      in if end' < int (length tx) then
           (let (pos, len) = last_mark (py_slice tx start end') sentence_marks (- 1, 0)
            in if 0 \<le> pos \<and> chunk_size c div 2 \<le> pos then start + pos + len else end')
         else end')"

text \<open>
  One turn of the loop and its exit, as two equations that the simplifier can apply to a
  concrete input without unfolding the recursion under an undecided test.
\<close>

lemma chunk_loop_step:
  "start < int (length tx) \<Longrightarrow>
   chunk_loop c tx start chunks =
     chunk_loop c tx (window_end c tx start - chunk_overlap c)
       (if py_strip (py_slice tx start (window_end c tx start)) \<noteq> []
        then chunks @ [py_strip (py_slice tx start (window_end c tx start))] else chunks)"
  by (subst chunk_loop.simps) (simp add: Let_def)

lemma chunk_loop_stop:
  "\<not> start < int (length tx) \<Longrightarrow> chunk_loop c tx start chunks = Some chunks"
  by (subst chunk_loop.simps) simp

lemmas chunk_eval = chunk_def chunk_loop_step chunk_loop_stop window_end_def sentence_marks_def
  py_slice_def clamp_index_def py_rfind_def py_strip_def py_isspace_def Let_def

section \<open>Properties of the chunker\<close>

subsection \<open>Slices and stripped strings are substrings\<close>

lemma py_slice_sublist: "sublist (py_slice xs i j) xs"
  unfolding py_slice_def Let_def
  by (meson sublist_drop sublist_order.order_trans sublist_take)

lemma py_strip_sublist: "sublist (py_strip s) s"
proof -
  have a: "sublist (dropWhile py_isspace s) s"
    by (simp add: suffix_dropWhile suffix_imp_sublist)
  have "suffix (dropWhile py_isspace (rev (dropWhile py_isspace s)))
          (rev (dropWhile py_isspace s))"
    by (rule suffix_dropWhile)
  then have "prefix (py_strip s) (dropWhile py_isspace s)"
    unfolding py_strip_def by (metis rev_rev_ident suffix_to_prefix)
  then have "sublist (py_strip s) (dropWhile py_isspace s)"
    by (rule prefix_imp_sublist)
  with a show ?thesis by (rule sublist_order.order_trans[rotated])
qed

text \<open>
  Loop invariant of \<open>chunk\<close>: every string collected so far is a non-empty substring of
  the input. It is proved for every run that leaves the loop, by induction over the
  approximations of the partial function.
\<close>

lemma chunk_loop_sublists:
  assumes "chunk_loop c tx start chunks = Some r"
  shows "(\<forall>x\<in>set chunks. x \<noteq> [] \<and> sublist x tx) \<longrightarrow>
         (\<forall>x\<in>set r. x \<noteq> [] \<and> sublist x tx)"
proof (rule chunk_loop.raw_induct
    [where P = "\<lambda>c tx start chunks r.
       (\<forall>x\<in>set chunks. x \<noteq> [] \<and> sublist x tx) \<longrightarrow>
       (\<forall>x\<in>set r. x \<noteq> [] \<and> sublist x tx)",
     OF _ assms])
  fix loop :: "text_chunker \<Rightarrow> pystr \<Rightarrow> int \<Rightarrow> pystr list \<Rightarrow> pystr list option"
  fix c tx start chunks r
  assume IH: "\<And>c tx start chunks r. loop c tx start chunks = Some r \<Longrightarrow>
       (\<forall>x\<in>set chunks. x \<noteq> [] \<and> sublist x tx) \<longrightarrow>
       (\<forall>x\<in>set r. x \<noteq> [] \<and> sublist x tx)"
  assume step: "(if start < int (length tx) then
        (let end' = window_end c tx start;
             chunk = py_strip (py_slice tx start end');
             chunks' = (if chunk \<noteq> [] then chunks @ [chunk] else chunks)
         in loop c tx (end' - chunk_overlap c) chunks')
      else Some chunks) = Some r"
  show "(\<forall>x\<in>set chunks. x \<noteq> [] \<and> sublist x tx) \<longrightarrow>
        (\<forall>x\<in>set r. x \<noteq> [] \<and> sublist x tx)"
  proof (cases "start < int (length tx)")
    case False
    with step have eq: "r = chunks" by simp
    show ?thesis unfolding eq by (rule impI)
  next
    case True
    define e where "e = window_end c tx start"
    define ch where "ch = py_strip (py_slice tx start e)"
    have sub: "sublist ch tx"
      unfolding ch_def using py_strip_sublist py_slice_sublist
      by (rule sublist_order.order_trans)
    show ?thesis
    proof (cases "ch = []")
      case True
      with step \<open>start < int (length tx)\<close>
      have run: "loop c tx (e - chunk_overlap c) chunks = Some r"
        unfolding Let_def e_def ch_def by simp
      from IH[OF run] show ?thesis .
    next
      case False
      with step \<open>start < int (length tx)\<close>
      have run: "loop c tx (e - chunk_overlap c) (chunks @ [ch]) = Some r"
        unfolding Let_def e_def ch_def by simp
      from IH[OF run]
      have imp: "(\<forall>x\<in>set (chunks @ [ch]). x \<noteq> [] \<and> sublist x tx) \<longrightarrow>
          (\<forall>x\<in>set r. x \<noteq> [] \<and> sublist x tx)" .
      show ?thesis
      proof (intro impI)
        assume a: "\<forall>x\<in>set chunks. x \<noteq> [] \<and> sublist x tx"
        have "\<forall>x\<in>set (chunks @ [ch]). x \<noteq> [] \<and> sublist x tx"
        proof (intro ballI)
          fix x assume "x \<in> set (chunks @ [ch])"
          then have "x \<in> set chunks \<or> x = ch" by auto
          with a sub False show "x \<noteq> [] \<and> sublist x tx" by blast
        qed
        with imp show "\<forall>x\<in>set r. x \<noteq> [] \<and> sublist x tx" by (rule mp)
      qed
    qed
  qed
qed

text \<open>
  Claim C10. Whenever \<open>TextChunker.chunk\<close> returns, every element of the returned list
  is a non-empty string that occurs as a contiguous substring of the input text.
\<close>

theorem chunk_elements_are_substrings:
  assumes "chunk c tx = Some r" and "x \<in> set r"
  shows "x \<noteq> [] \<and> sublist x tx"
proof (cases "tx = []")
  case True
  with assms(1) have "r = []" by (simp add: chunk_def)
  with assms(2) have False by simp
  then show ?thesis ..
next
  case False
  with assms(1) have run: "chunk_loop c tx 0 [] = Some r" by (simp add: chunk_def)
  have init: "\<forall>x\<in>set ([] :: pystr list). x \<noteq> [] \<and> sublist x tx"
  proof (intro ballI)
    fix x :: pystr
    assume "x \<in> set []"
    then have False by simp
    then show "x \<noteq> [] \<and> sublist x tx" ..
  qed
  from chunk_loop_sublists[OF run] init
  have "\<forall>x\<in>set r. x \<noteq> [] \<and> sublist x tx" by (rule mp)
  then show ?thesis using assms(2) by (rule bspec)
qed

theorem chunk_elements_are_substrings_witness:
  "chunk \<lparr>chunk_size = 10, chunk_overlap = 2\<rparr> (U ''aaaaaa. bbbbbbbb'') =
      Some [U ''aaaaaa.'', U ''. bbbbbbbb'', U ''bb'']
   \<and> U ''aaaaaa.'' \<in> set [U ''aaaaaa.'', U ''. bbbbbbbb'', U ''bb'']
   \<and> U ''aaaaaa.'' \<noteq> [] \<and> sublist (U ''aaaaaa.'') (U ''aaaaaa. bbbbbbbb'')"
proof -
  have h: "chunk \<lparr>chunk_size = 10, chunk_overlap = 2\<rparr> (U ''aaaaaa. bbbbbbbb'') =
      Some [U ''aaaaaa.'', U ''. bbbbbbbb'', U ''bb'']"
    by (simp add: chunk_eval)
  have m: "U ''aaaaaa.'' \<in> set [U ''aaaaaa.'', U ''. bbbbbbbb'', U ''bb'']"
    by (rule list.set_intros(1))
  note r = chunk_elements_are_substrings[OF h m]
  show ?thesis
    by (rule conjI[OF h], rule conjI[OF m], rule r)
qed

subsection \<open>Where a window is cut\<close>

lemma break_at_find:
  "break_at c tx start e ps =
     (case find (\<lambda>p. chunk_size c div 2 < py_rfind (py_slice tx start e) p) ps of
        None \<Rightarrow> e
      | Some p \<Rightarrow> start + py_rfind (py_slice tx start e) p + int (length p))"
  by (induction ps) (simp_all add: Let_def)

text \<open>
  Claim C5, as amended. In a window that does not reach the end of the text, the marks
  \<open>". "\<close>, \<open>".\n"\<close>, \<open>"! "\<close>, \<open>"? "\<close> are tried in this order; the first mark whose last
  occurrence in the window starts at an index strictly greater than \<open>chunk_size // 2\<close>
  decides the cut, which is placed right after that occurrence. When no mark has such an
  occurrence, the cut is the raw boundary \<open>start + chunk_size\<close>.
\<close>

theorem window_end_first_mark_beyond_half:
  assumes "start + chunk_size c < int (length tx)"
  shows "window_end c tx start =
     (case find (\<lambda>p. chunk_size c div 2 <
                      py_rfind (py_slice tx start (start + chunk_size c)) p) sentence_marks of
        None \<Rightarrow> start + chunk_size c
      | Some p \<Rightarrow> start + py_rfind (py_slice tx start (start + chunk_size c)) p + int (length p))"
  using assms unfolding window_end_def Let_def by (simp only: if_True break_at_find)

theorem window_end_first_mark_beyond_half_witness:
  "(0::int) + chunk_size \<lparr>chunk_size = 10, chunk_overlap = 2\<rparr> < int (length (U ''aaaaaa. bbbbbbbb''))
   \<and> window_end \<lparr>chunk_size = 10, chunk_overlap = 2\<rparr> (U ''aaaaaa. bbbbbbbb'') 0 = 8"
proof -
  have h: "(0::int) + chunk_size \<lparr>chunk_size = 10, chunk_overlap = 2\<rparr>
             < int (length (U ''aaaaaa. bbbbbbbb''))" by simp
  from window_end_first_mark_beyond_half[OF h]
  have "window_end \<lparr>chunk_size = 10, chunk_overlap = 2\<rparr> (U ''aaaaaa. bbbbbbbb'') 0 = 8"
    by (simp add: chunk_eval)
  with h show ?thesis by (rule conjI)
qed

text \<open>
  Claim C5 as stated fails: with \<open>chunk_size = 10\<close> the mark \<open>". "\<close> of
  \<open>"aaaaa. bbbbbbbb"\<close> starts at index 5, exactly the midpoint of the first window. The
  specification's cut is 7, right after the mark; the code's test \<open>last_punct > 5\<close> fails
  and it cuts at the raw boundary 10.
\<close>

theorem window_end_at_midpoint_counterexample:
  "window_end \<lparr>chunk_size = 10, chunk_overlap = 2\<rparr> (U ''aaaaa. bbbbbbbb'') 0 = 10
   \<and> spec_window_end \<lparr>chunk_size = 10, chunk_overlap = 2\<rparr> (U ''aaaaa. bbbbbbbb'') 0 = 7
   \<and> py_rfind (py_slice (U ''aaaaa. bbbbbbbb'') 0 10) (U ''. '') = 5"
  by (simp add: chunk_eval spec_window_end_def)

subsection \<open>Termination\<close>

text \<open>
  Claim C2 at a failing input: \<open>chunk_size = 10\<close>, \<open>chunk_overlap = 8\<close> satisfy
  \<open>chunk_size > overlap \<ge> 0\<close>, and on \<open>"aaaaaa. bbbbbbbb"\<close> the first window is cut right
  after the mark at index 6, at \<open>end = 8\<close>, so that the next \<open>start = end - overlap\<close> is
  0 again: \<open>start\<close> does not advance and the loop never ends.
\<close>

theorem chunk_overlap_8_of_10_never_returns:
  "chunk \<lparr>chunk_size = 10, chunk_overlap = 8\<rparr> (U ''aaaaaa. bbbbbbbb'') = None"
proof -
  let ?c = "\<lparr>chunk_size = 10, chunk_overlap = 8\<rparr>"
  let ?t = "U ''aaaaaa. bbbbbbbb''"
  have we: "window_end ?c ?t 0 = 8" by (simp add: chunk_eval)
  have no: "chunk_loop c tx start chunks = Some r \<Longrightarrow> \<not> (c = ?c \<and> tx = ?t \<and> start = 0)"
    for c tx start chunks r
  proof (rule chunk_loop.raw_induct
      [where P = "\<lambda>c tx start chunks r. \<not> (c = ?c \<and> tx = ?t \<and> start = 0)"])
    fix loop :: "text_chunker \<Rightarrow> pystr \<Rightarrow> int \<Rightarrow> pystr list \<Rightarrow> pystr list option"
    fix c tx start chunks r
    assume IH: "\<And>c tx start chunks r. loop c tx start chunks = Some r \<Longrightarrow>
         \<not> (c = ?c \<and> tx = ?t \<and> start = 0)"
    assume step: "(if start < int (length tx) then
        (let end' = window_end c tx start;
             chunk = py_strip (py_slice tx start end');
             chunks' = (if chunk \<noteq> [] then chunks @ [chunk] else chunks)
         in loop c tx (end' - chunk_overlap c) chunks')
      else Some chunks) = Some r"
    show "\<not> (c = ?c \<and> tx = ?t \<and> start = 0)"
    proof
      assume a: "c = ?c \<and> tx = ?t \<and> start = 0"
      with step we have "\<exists>chunks'. loop ?c ?t 0 chunks' = Some r"
        by (auto simp add: Let_def)
      then obtain chunks' where "loop ?c ?t 0 chunks' = Some r" ..
      from IH[OF this] show False by simp
    qed
  qed
  have "chunk_loop ?c ?t 0 [] = None"
  proof (cases "chunk_loop ?c ?t 0 []")
    case None then show ?thesis .
  next
    case (Some r)
    from no[OF this] show ?thesis by simp
  qed
  then show ?thesis by (simp add: chunk_def)
qed

section \<open>Properties of the parser\<close>

lemma parsers_dom: "parsers k \<noteq> None \<longleftrightarrow> k = U ''pdf'' \<or> k = U ''docx'' \<or> k = U ''txt''"
  by (simp add: parsers_def)

lemma parsers_pdf: "parsers (U ''pdf'') = Some parse_pdf"
  and parsers_docx: "parsers (U ''docx'') = Some parse_docx"
  and parsers_txt: "parsers (U ''txt'') = Some parse_txt"
  by (simp_all add: parsers_def)

lemma parse_unsupported_extension:
  assumes "py_lower extension \<notin> {U ''pdf'', U ''docx'', U ''txt''}"
  shows "parse w file_path extension =
           (Inl (ValueError (U ''Unsupported file type: '' @ extension)), [])"
proof -
  from assms have "parsers (py_lower extension) = None"
    using parsers_dom[of "py_lower extension"] by blast
  then show ?thesis by (simp add: parse_def)
qed

lemma parse_txt_no_decode_error:
  assumes "read_file w file_path = Inr bs"
  shows "\<exists>s. fst (parse_txt w file_path) = Inr s"
  using assms
  by (auto simp: parse_txt_def read_text_def decode_def split: sum.splits error.splits option.splits)


text \<open>
  Claim C8. An extension that is none of \<open>pdf\<close>, \<open>docx\<close>, \<open>txt\<close> after lowercasing makes
  \<open>parse\<close> raise \<open>ValueError\<close> (the specification's UnsupportedFormat) with no file opened,
  whatever the path and the files; an extension that lowercases to one of the three is
  handed to the parser of that format, whatever its case.
\<close>

theorem parse_dispatches_on_lowercased_extension:
  "(py_lower extension \<notin> {U ''pdf'', U ''docx'', U ''txt''} \<longrightarrow>
      parse w file_path extension =
        (Inl (ValueError (U ''Unsupported file type: '' @ extension)), []))
   \<and> (py_lower extension = U ''pdf'' \<longrightarrow> parse w file_path extension = parse_pdf w file_path)
   \<and> (py_lower extension = U ''docx'' \<longrightarrow> parse w file_path extension = parse_docx w file_path)
   \<and> (py_lower extension = U ''txt'' \<longrightarrow> parse w file_path extension = parse_txt w file_path)"
proof (intro conjI impI)
  assume "py_lower extension \<notin> {U ''pdf'', U ''docx'', U ''txt''}"
  then show "parse w file_path extension =
        (Inl (ValueError (U ''Unsupported file type: '' @ extension)), [])"
    by (rule parse_unsupported_extension)
next
  assume "py_lower extension = U ''pdf''"
  then show "parse w file_path extension = parse_pdf w file_path"
    by (simp only: parse_def parsers_pdf option.case)
next
  assume "py_lower extension = U ''docx''"
  then show "parse w file_path extension = parse_docx w file_path"
    by (simp only: parse_def parsers_docx option.case)
next
  assume "py_lower extension = U ''txt''"
  then show "parse w file_path extension = parse_txt w file_path"
    by (simp only: parse_def parsers_txt option.case)
qed

lemma lower_examples:
  "py_lower (U ''xlsx'') = U ''xlsx''" "py_lower (U ''PDF'') = U ''pdf''"
  "py_lower (U ''Docx'') = U ''docx''" "py_lower (U ''TXT'') = U ''txt''"
  by (simp_all add: py_lower_def py_lower_char_def)

theorem parse_dispatches_on_lowercased_extension_witness:
  "(py_lower (U ''xlsx'') \<notin> {U ''pdf'', U ''docx'', U ''txt''}
     \<and> parse example_files (U ''/f'') (U ''xlsx'') =
         (Inl (ValueError (U ''Unsupported file type: '' @ U ''xlsx'')), []))
   \<and> (py_lower (U ''PDF'') = U ''pdf''
     \<and> parse example_files (U ''/f'') (U ''PDF'') = parse_pdf example_files (U ''/f''))
   \<and> (py_lower (U ''Docx'') = U ''docx''
     \<and> parse example_files (U ''/f'') (U ''Docx'') = parse_docx example_files (U ''/f''))
   \<and> (py_lower (U ''TXT'') = U ''txt''
     \<and> parse example_files (U ''/f'') (U ''TXT'') = parse_txt example_files (U ''/f''))"
proof -
  have a: "py_lower (U ''xlsx'') \<notin> {U ''pdf'', U ''docx'', U ''txt''}"
    by (simp add: py_lower_def py_lower_char_def)
  note t1 = parse_dispatches_on_lowercased_extension[of "U ''xlsx''" example_files "U ''/f''"]
  note t2 = parse_dispatches_on_lowercased_extension[of "U ''PDF''" example_files "U ''/f''"]
  note t3 = parse_dispatches_on_lowercased_extension[of "U ''Docx''" example_files "U ''/f''"]
  note t4 = parse_dispatches_on_lowercased_extension[of "U ''TXT''" example_files "U ''/f''"]
  from a t1 have r1: "parse example_files (U ''/f'') (U ''xlsx'') =
         (Inl (ValueError (U ''Unsupported file type: '' @ U ''xlsx'')), [])" by blast
  from t2 lower_examples(2)
  have r2: "parse example_files (U ''/f'') (U ''PDF'') = parse_pdf example_files (U ''/f'')"
    by blast
  from t3 lower_examples(3)
  have r3: "parse example_files (U ''/f'') (U ''Docx'') = parse_docx example_files (U ''/f'')"
    by blast
  from t4 lower_examples(4)
  have r4: "parse example_files (U ''/f'') (U ''TXT'') = parse_txt example_files (U ''/f'')"
    by blast
  from a r1 r2 r3 r4 lower_examples show ?thesis by blast
qed

text \<open>
  Claim C9. For a file that can be read, whatever its bytes: decoding as Latin-1 succeeds,
  \<open>parse_txt\<close> returns a text, and when the bytes are not valid UTF-8 that text is their
  Latin-1 decoding.
\<close>

theorem parse_txt_falls_back_to_latin1:
  assumes "read_file w file_path = Inr bs"
  shows "(\<exists>s. decode Latin1 bs = Inr s)
     \<and> (\<exists>s. fst (parse_txt w file_path) = Inr s)
     \<and> ((\<exists>e. decode UTF8 bs = Inl e) \<longrightarrow>
          fst (parse_txt w file_path) = Inr (universal_newlines (map unat bs)))"
  using assms
  by (auto simp: parse_txt_def read_text_def decode_def
           split: sum.splits error.splits option.splits)

theorem parse_txt_falls_back_to_latin1_witness:
  "read_file example_files (U ''/f'') = Inr [0x48, 0xFF]
   \<and> (\<exists>e. decode UTF8 [0x48, 0xFF] = Inl e)
   \<and> fst (parse_txt example_files (U ''/f'')) = Inr [72, 255]"
proof -
  have h: "read_file example_files (U ''/f'') = Inr [0x48, 0xFF]"
    by (simp add: example_files_def)
  have d: "\<exists>e. decode UTF8 [0x48, 0xFF] = Inl e" by (simp add: decode_def)
  have u: "universal_newlines (map unat [0x48, 0xFF :: byte]) = [72, 255]" by simp
  from parse_txt_falls_back_to_latin1[OF h] d u
  have "fst (parse_txt example_files (U ''/f'')) = Inr [72, 255]" by metis
  with h d show ?thesis by blast
qed

section \<open>Properties of the service\<close>

lemma answer_question_cases:
  "answer_question w store question uid ids history =
     (case answer_body w store question uid ids history of
        (Inl e, calls) \<Rightarrow> (Inr (generic_error_msg e), calls)
      | (Inr answer, calls) \<Rightarrow> (Inr answer, calls))"
  by (simp add: answer_question_def)

text \<open>
  Claim C1. \<open>answer_question\<close> always returns a string and never raises: whatever the
  question, the user, the selected documents, the history and the behaviour of the
  libraries, the result is a value \<open>Inr answer\<close>; and every exception \<open>e\<close> that leaves the
  \<open>try\<close> block (embedding, retrieval, model call) becomes the fixed message followed by
  \<open>str(e)\<close>.
\<close>

theorem answer_question_never_raises:
  "(\<exists>answer calls. answer_question w store question uid ids history = (Inr answer, calls))
   \<and> (\<forall>e. fst (answer_body w store question uid ids history) = Inl e \<longrightarrow>
          fst (answer_question w store question uid ids history) = Inr (generic_error_msg e))"
proof -
  obtain r calls where b: "answer_body w store question uid ids history = (r, calls)"
    by (cases "answer_body w store question uid ids history")
  show ?thesis
  proof (cases r)
    case (Inl e)
    with b show ?thesis by (simp add: answer_question_def)
  next
    case (Inr a)
    with b show ?thesis by (simp add: answer_question_def)
  qed
qed

theorem answer_question_never_raises_witness:
  "fst (answer_body failing_retrieval_world example_store (U ''why?'') 1 [5] None)
       = Inl (LibraryError (U ''store unavailable''))
   \<and> fst (answer_question failing_retrieval_world example_store (U ''why?'') 1 [5] None)
       = Inr (generic_error_msg (LibraryError (U ''store unavailable'')))"
proof -
  have h: "fst (answer_body failing_retrieval_world example_store (U ''why?'') 1 [5] None)
       = Inl (LibraryError (U ''store unavailable''))"
    by (simp add: answer_body_def failing_retrieval_world_def example_world_def)
  from answer_question_never_raises
         [of failing_retrieval_world example_store "U ''why?''" 1 "[5]" None] h
  show ?thesis by blast
qed

text \<open>
  Claim C6. When retrieval returns no document, \<open>answer_question\<close> returns the fixed
  "no relevant information" string and hands no prompt to the language model.
\<close>

theorem answer_question_empty_retrieval:
  assumes "embed_text w question = Inr query_embedding"
    and "retrieve w store query_embedding
           (Conj [Equals (U ''meta.user_id'') uid, IsIn (U ''meta.document_id'') ids]) 5 = Inr []"
  shows "answer_question w store question uid ids history = (Inr no_relevant_msg, [])"
  using assms by (simp add: answer_question_def answer_body_def)

theorem answer_question_empty_retrieval_witness:
  "embed_text example_world (U ''why?'') = Inr 0
   \<and> retrieve example_world example_store 0
        (Conj [Equals (U ''meta.user_id'') 3, IsIn (U ''meta.document_id'') [5]]) 5 = Inr []
   \<and> answer_question example_world example_store (U ''why?'') 3 [5] None
        = (Inr no_relevant_msg, [])"
proof -
  have e: "embed_text example_world (U ''why?'') = Inr 0" by (simp add: example_world_def)
  have r: "retrieve example_world example_store 0
        (Conj [Equals (U ''meta.user_id'') 3, IsIn (U ''meta.document_id'') [5]]) 5 = Inr []"
    by (simp add: example_world_def example_store_def example_doc_def meta_field_def)
  from answer_question_empty_retrieval[OF e r] e r show ?thesis by blast
qed

lemma config_error_msg_distinct: "config_error_msg \<noteq> generic_error_msg e"
  by (simp add: config_error_msg_def generic_error_msg_def)

text \<open>
  Claim C7. When retrieval returns at least one document and the API key is missing
  (\<open>None\<close> or empty) or equal to the placeholder, \<open>answer_question\<close> returns the fixed
  configuration message, which differs from every generic failure message, and hands no
  prompt to the language model.
\<close>

theorem answer_question_missing_credential:
  assumes "embed_text w question = Inr query_embedding"
    and "retrieve w store query_embedding
           (Conj [Equals (U ''meta.user_id'') uid, IsIn (U ''meta.document_id'') ids]) 5 = Inr docs"
    and "docs \<noteq> []"
    and "google_api_key w = None \<or> google_api_key w = Some []
         \<or> google_api_key w = Some placeholder_key"
  shows "answer_question w store question uid ids history = (Inr config_error_msg, [])
         \<and> (\<forall>e. config_error_msg \<noteq> generic_error_msg e)"
proof -
  from assms have "answer_body w store question uid ids history = (Inr config_error_msg, [])"
    by (auto simp add: answer_body_def Let_def)
  then show ?thesis by (simp add: answer_question_def config_error_msg_distinct)
qed

theorem answer_question_missing_credential_witness:
  "embed_text example_world (U ''why?'') = Inr 0
   \<and> retrieve example_world example_store 0
        (Conj [Equals (U ''meta.user_id'') 1, IsIn (U ''meta.document_id'') [5]]) 5
        = Inr [example_doc (U ''a'') 1 5]
   \<and> [example_doc (U ''a'') 1 5] \<noteq> []
   \<and> google_api_key example_world = None
   \<and> answer_question example_world example_store (U ''why?'') 1 [5] None
        = (Inr config_error_msg, [])"
proof -
  have e: "embed_text example_world (U ''why?'') = Inr 0" by (simp add: example_world_def)
  have r: "retrieve example_world example_store 0
        (Conj [Equals (U ''meta.user_id'') 1, IsIn (U ''meta.document_id'') [5]]) 5
        = Inr [example_doc (U ''a'') 1 5]"
    by (simp add: example_world_def example_store_def example_doc_def meta_field_def)
  have n: "[example_doc (U ''a'') 1 5] \<noteq> []" by simp
  have k: "google_api_key example_world = None" by (simp add: example_world_def)
  from answer_question_missing_credential[OF e r n, of "None"] k e r n
  show ?thesis by blast
qed


text \<open>
  Claim C4. \<open>delete_document_embeddings\<close> hands the store the flat dict
  \<open>{"meta.document_id": document_id, "meta.user_id": user_id}\<close>. On a store that follows
  the library the lookup is refused, the \<open>except\<close> clause swallows the error, and the store
  is left as it was: the entry of document 5 and user 1 is still there after
  \<open>delete_document_embeddings 5 1\<close>.
\<close>

theorem delete_with_flat_filter_removes_nothing:
  "delete_document_embeddings example_world 5 1 example_store = example_store
   \<and> example_doc (U ''a'') 1 5 \<in> set example_store
   \<and> document_id (meta (example_doc (U ''a'') 1 5)) = 5
   \<and> user_id (meta (example_doc (U ''a'') 1 5)) = 1"
proof -
  have f: "filter_documents example_world example_store
             (Fields [(U ''meta.document_id'', 5), (U ''meta.user_id'', 1)])
           = Inl operator_key_missing"
    by (simp add: example_world_def)
  have "delete_document_embeddings example_world 5 1 example_store = example_store"
    unfolding delete_document_embeddings_def f by simp
  moreover have "example_doc (U ''a'') 1 5 \<in> set example_store"
    by (simp add: example_store_def)
  moreover have "document_id (meta (example_doc (U ''a'') 1 5)) = 5"
    by (simp add: example_doc_def)
  moreover have "user_id (meta (example_doc (U ''a'') 1 5)) = 1"
    by (simp add: example_doc_def)
  ultimately show ?thesis by (intro conjI)
qed

section \<open>Properties of the indexer\<close>

subsection \<open>The default chunker returns\<close>

















subsection \<open>The result of \<open>index_document\<close>\<close>





end
